theory Spec2Isabelle
  imports Complex_Main "HOL-Library.Sublist"
begin

section \<open>The reply cache of \<open>ChatGPTBot\<close> (bot.py, \<open>__init__\<close> and \<open>_edit\<close>)\<close>

text \<open>
  \<open>self.assistant_replies\<close> is a Python \<open>dict\<close>. A dict iterates in insertion order and an
  assignment to a key that is present keeps the key's position, so the dict is an
  association list with unique keys, oldest insertion first.
\<close>

type_synonym 'v pydict = "(string \<times> 'v) list"

fun dict_set :: "'v pydict \<Rightarrow> string \<Rightarrow> 'v \<Rightarrow> 'v pydict" where
  "dict_set [] k v = [(k, v)]"
| "dict_set ((k', v') # d) k v =
     (if k' = k then (k, v) # d else (k', v') # dict_set d k v)"

definition dict_keys :: "'v pydict \<Rightarrow> string list" where
  "dict_keys d = map fst d"

definition dict_get :: "'v pydict \<Rightarrow> string \<Rightarrow> 'v option" where
  "dict_get d k = map_of d k"

text \<open>
  The attributes of the plugin object that the orchestration reads and writes:
  \<open>assistant_replies\<close> and \<open>max_messages\<close> are set in \<open>__init__\<close>; \<open>_last_edit_time\<close> is
  created by the first throttled edit (\<open>getattr(self, "_last_edit_time", None)\<close>).
  \<open>sent\<close> is the log of \<open>client.send_message\<close> calls (room, edited event, text), oldest
  first; the transport is taken to accept every message. Time is the reading of
  \<open>time.time()\<close>, in seconds.
\<close>

record bot =
  assistant_replies :: "string pydict"
  max_messages :: nat
  last_edit_time :: "real option"
  sent :: "(string \<times> string \<times> string) list"

definition init_bot :: bot where
  "init_bot = \<lparr> assistant_replies = [], max_messages = 100,
                 last_edit_time = None, sent = [] \<rparr>"

text \<open>
  \<open>_edit\<close>: send the edit, store the text under the edited event's id, and when the dict
  has grown past \<open>max_messages\<close> delete its first key (\<open>next(iter(...))\<close>).
\<close>

definition edit :: "bot \<Rightarrow> string \<Rightarrow> string \<Rightarrow> string \<Rightarrow> bot" where
  "edit b room_id event_id txt =
     (let replies = dict_set (assistant_replies b) event_id txt;
          replies' = (if length replies > max_messages b then tl replies else replies)
      in b\<lparr> sent := sent b @ [(room_id, event_id, txt)], assistant_replies := replies' \<rparr>)"

text \<open>A sequence of edits \<open>(event_id, text)\<close> in one room, applied in order.\<close>

definition edits :: "bot \<Rightarrow> string \<Rightarrow> (string \<times> string) list \<Rightarrow> bot" where
  "edits b room_id es = fold (\<lambda>(k, v) b'. edit b' room_id k v) es b"

text \<open>A key was evicted by a step from cache \<open>c\<close> to cache \<open>c'\<close>.\<close>

definition evicted :: "'v pydict \<Rightarrow> 'v pydict \<Rightarrow> bool" where
  "evicted c c' = (\<exists>k \<in> set (dict_keys c). k \<notin> set (dict_keys c'))"

section \<open>Text: the ellipsis, \<open>str.strip\<close> and the three regular expressions of bot.py\<close>

text \<open>
  A Python \<open>str\<close> is modelled by the list of its characters, a non-ASCII character by its
  UTF-8 bytes: concatenation and suffixes are those of the Python strings. The character
  classes \<open>\w\<close> and whitespace are taken on ASCII.
\<close>

definition ellipsis :: string where
  "ellipsis = [CHR 0xE2, CHR 0x80, CHR 0xA6]"

definition dq :: char where
  "dq = CHR 0x22"

definition is_space :: "char \<Rightarrow> bool" where
  "is_space c = (let n = (of_char c :: nat) in (9 \<le> n \<and> n \<le> 13) \<or> (28 \<le> n \<and> n \<le> 32))"

definition strip :: "string \<Rightarrow> string" where
  "strip s = rev (dropWhile is_space (rev (dropWhile is_space s)))"

definition is_alnum :: "char \<Rightarrow> bool" where
  "is_alnum c = (let n = (of_char c :: nat) in
     (48 \<le> n \<and> n \<le> 57) \<or> (65 \<le> n \<and> n \<le> 90) \<or> (97 \<le> n \<and> n \<le> 122))"

text \<open>The class \<open>[\w-]\<close> of the model-override pattern \<open>![\w-]+\<close>.\<close>

definition is_token_char :: "char \<Rightarrow> bool" where
  "is_token_char c = (is_alnum c \<or> c = CHR ''_'' \<or> c = CHR ''-'')"

text \<open>
  \<open>pattern.search(content)\<close> for \<open>![\w-]+\<close>: the leftmost \<open>!\<close> that is followed by a token
  character, with the longest run of token characters. The result is the text before the
  match, the match without its \<open>!\<close> (\<open>match.group(0)[1:]\<close>) and the text after it.
\<close>

fun search_override :: "string \<Rightarrow> (string \<times> string \<times> string) option" where
  "search_override [] = None"
| "search_override (c # cs) =
     (if c = CHR ''!'' \<and> takeWhile is_token_char cs \<noteq> []
      then Some ([], takeWhile is_token_char cs, dropWhile is_token_char cs)
      else (case search_override cs of
              None \<Rightarrow> None
            | Some (before, tok, after) \<Rightarrow> Some (c # before, tok, after)))"

text \<open>
  \<open>re.compile(r"^@([a-zA-Z0-9]+):")\<close> on a sender id: the handle between \<open>@\<close> and \<open>:\<close>,
  or the empty string when the id does not match.
\<close>

definition filtered_name :: "string \<Rightarrow> string" where
  "filtered_name sender_name =
     (case sender_name of
        [] \<Rightarrow> []
      | c # cs \<Rightarrow>
          (if c = CHR ''@'' \<and> takeWhile is_alnum cs \<noteq> []
              \<and> (case dropWhile is_alnum cs of [] \<Rightarrow> False | d # _ \<Rightarrow> d = CHR '':'')
           then takeWhile is_alnum cs else []))"

text \<open>
  The mention pattern \<open><a href="https://matrix\.to/#/BOT">.*?</a>:? ?\<close>, with the bot's
  name escaped. \<open>find_close\<close> is \<open>.*?</a>\<close>: the number of characters up to and with the
  first \<open></a>\<close>, none of them a newline before it.
\<close>

definition mention_open :: "string \<Rightarrow> string" where
  "mention_open bot_name = ''<a href='' @ [dq] @ ''https://matrix.to/#/'' @ bot_name @ [dq] @ ''>''"

fun find_close :: "string \<Rightarrow> nat option" where
  "find_close [] = None"
| "find_close (c # cs) =
     (if prefix ''</a>'' (c # cs) then Some 4
      else if c = CHR 0x0A then None
      else map_option Suc (find_close cs))"

definition match_mention :: "string \<Rightarrow> string \<Rightarrow> nat option" where
  "match_mention bot_name s =
     (if prefix (mention_open bot_name) s
      then (case find_close (drop (length (mention_open bot_name)) s) of
              None \<Rightarrow> None
            | Some n \<Rightarrow>
                (let m = length (mention_open bot_name) + n;
                     m1 = (if prefix '':'' (drop m s) then Suc m else m);
                     m2 = (if prefix '' '' (drop m1 s) then Suc m1 else m1)
                 in Some m2))
      else None)"

text \<open>
  \<open>userIdPattern.sub('', s)\<close>: every match, left to right, is deleted. The counter is the
  number of characters of the current match that are still to be dropped.
\<close>

fun sub_mention :: "string \<Rightarrow> nat \<Rightarrow> string \<Rightarrow> string" where
  "sub_mention bot_name k [] = []"
| "sub_mention bot_name (Suc k) (c # cs) = sub_mention bot_name k cs"
| "sub_mention bot_name 0 (c # cs) =
     (case match_mention bot_name (c # cs) of
        Some (Suc k) \<Rightarrow> sub_mention bot_name k cs
      | _ \<Rightarrow> c # sub_mention bot_name 0 cs)"

section \<open>Messages, stream chunks and the environment of \<open>chat_gpt_request\<close>\<close>

text \<open>
  A chat message is a Python dict. \<open>None\<close> in \<open>m_name\<close>, \<open>m_tool_calls\<close> and
  \<open>m_tool_call_id\<close> says that the key is absent; \<open>None\<close> in \<open>m_content\<close> is the value
  \<open>None\<close> (every message of bot.py has the key \<open>content\<close>).
\<close>

record tool_call =
  tc_id :: string
  tc_type :: string
  tc_name :: string
  tc_arguments :: string

record message =
  m_role :: string
  m_name :: "string option"
  m_content :: "string option"
  m_tool_calls :: "tool_call list option"
  m_tool_call_id :: "string option"

text \<open>Parsed JSON (\<open>json.loads\<close>); a number is kept as its literal.\<close>

datatype json = JNull | JBool bool | JNum string | JStr string
  | JArr "json list" | JObj "(string \<times> json) list"

text \<open>The exceptions that the orchestration can raise or catch.\<close>

datatype type_error = NotAMapping | StringIndices | NoneToPattern

datatype exn = JSONDecodeError | KeyError string | TypeError type_error
  | AttributeError | UnboundLocalError | ToolError string | FetchError

text \<open>
  One entry of \<open>delta.tool_calls\<close> and one element of the provider's stream. The two
  times are the readings of \<open>time.time()\<close> when the element is handled: the first in the
  throttle test, the second when \<open>_last_edit_time\<close> is stored.
\<close>

record fragment =
  f_id :: "string option"
  f_name :: "string option"
  f_arguments :: "string option"

record raw_chunk =
  delta_content :: "string option"
  finish_reason :: "string option"
  delta_tool_calls :: "fragment list option"

record arrival =
  chunk :: raw_chunk
  time_at_check :: real
  time_at_stamp :: real

datatype api_failure = ApiValueError string | ApiException string

text \<open>
  A room event as \<open>get_conversation_history\<close> reads it: whether its type is
  \<open>ROOM_MESSAGE\<close>, the sender, the two bodies, and the id that the probe of
  \<open>_relates_to\<close> and \<open>in_reply_to\<close> yields (\<open>None\<close> when there is no such relation).
\<close>

record room_event =
  ev_is_message :: bool
  ev_sender :: string
  ev_body :: string
  ev_formatted_body :: "string option"
  ev_reply_to :: "string option"

text \<open>
  What the code takes from outside: the configuration, the wall clock of the prompt, the
  Python runtime (\<open>json\<close>, \<open>str\<close> of a value and of an exception), the two tools (called
  with keyword arguments; \<open>Inl\<close> is the exception a call raises), the two provider
  clients (\<open>Inl\<close> is the exception of the request) and the Matrix client
  (\<open>get_event\<close> of a room and an event id; \<open>None\<close> when the fetch raises).
\<close>

record env =
  config_model :: string
  bot_name :: string
  allowed_models :: "string list"
  mistral_allowed_models :: "string list"
  current_date :: string
  current_time :: string
  json_loads :: "string \<Rightarrow> json option"
  json_dumps :: "json \<Rightarrow> string"
  py_str :: "json \<Rightarrow> string"
  exn_str :: "exn \<Rightarrow> string"
  get_weather :: "(string \<times> json) list \<Rightarrow> exn + string"
  fetch_prices :: "(string \<times> json) list \<Rightarrow> exn + string"
  openai_create :: "string \<Rightarrow> message list \<Rightarrow> api_failure + arrival list"
  mistral_chat_stream :: "string \<Rightarrow> message list \<Rightarrow> api_failure + arrival list"
  get_event :: "string \<Rightarrow> string \<Rightarrow> room_event option"

text \<open>The fields of the Matrix event that \<open>chat_gpt_request\<close> reads.\<close>

record message_event =
  evt_sender :: string
  evt_room_id :: string

section \<open>The provider service (\<open>ai_service.py\<close>)\<close>

definition is_mistral_model :: "env \<Rightarrow> string \<Rightarrow> bool" where
  "is_mistral_model e model = (model \<in> set (mistral_allowed_models e))"

text \<open>The conversion of one message for Mistral: the dict itself is changed.\<close>

definition mistral_message :: "message \<Rightarrow> message" where
  "mistral_message msg =
     (if m_role msg = ''developer'' then msg\<lparr>m_role := ''system''\<rparr> else msg)\<lparr>m_name := None\<rparr>"

text \<open>
  \<open>create_chat_completion\<close> with \<open>stream=True\<close>: \<open>Invalid\<close> is the \<open>ValueError\<close> of a model
  that is in neither list, raised before any request; \<open>Called\<close> holds the messages as the
  request sent them (for Mistral the caller's dicts, changed in place) and the stream or
  the exception of the client. The tool definitions that an OpenAI request carries are
  constant and left out.
\<close>

datatype completion = Invalid string
  | Called "message list" "api_failure + arrival list"

definition create_chat_completion :: "env \<Rightarrow> message list \<Rightarrow> string \<Rightarrow> completion" where
  "create_chat_completion e messages model =
     (if is_mistral_model e model
      then (if model \<notin> set (mistral_allowed_models e)
            then Invalid (''Invalid Mistral model: '' @ model)
            else Called (map mistral_message messages)
                   (mistral_chat_stream e model (map mistral_message messages)))
      else (if model \<notin> set (allowed_models e)
            then Invalid (''Invalid OpenAI model: '' @ model)
            else Called messages (openai_create e model messages)))"

record processed =
  p_content :: "string option"
  p_finish_reason :: "string option"
  p_tool_calls :: "fragment list option"

definition process_chunk :: "raw_chunk \<Rightarrow> bool \<Rightarrow> processed" where
  "process_chunk c is_mistral =
     (if is_mistral
      then \<lparr> p_content = delta_content c, p_finish_reason = finish_reason c,
             p_tool_calls = None \<rparr>
      else \<lparr> p_content = delta_content c, p_finish_reason = finish_reason c,
             p_tool_calls = delta_tool_calls c \<rparr>)"

section \<open>\<open>ChatGPTBot.chat_gpt_request\<close> (bot.py)\<close>

subsection \<open>The conversation and the model override\<close>

definition developer_message :: "env \<Rightarrow> message" where
  "developer_message e =
     \<lparr> m_role = ''developer'', m_name = None,
       m_content = Some (''Your role is to be a chatbot called Matrix. Prefer metric units. ''
          @ ''Do not use latex, always use markdown Today is '' @ current_date e
          @ '' and time is '' @ current_time e @ ''.''),
       m_tool_calls = None, m_tool_call_id = None \<rparr>"

definition user_message :: "string \<Rightarrow> string \<Rightarrow> message" where
  "user_message handle query =
     \<lparr> m_role = ''user'', m_name = Some handle, m_content = Some query,
       m_tool_calls = None, m_tool_call_id = None \<rparr>"

definition build_messages :: "env \<Rightarrow> message_event \<Rightarrow> string \<Rightarrow> message list \<Rightarrow> message list" where
  "build_messages e evt query conversation_history =
     [developer_message e] @ conversation_history
       @ [user_message (filtered_name (evt_sender evt)) query]"

text \<open>
  The loop \<open>for message in messages\<close> of the override check. \<open>pattern.search\<close> raises
  \<open>TypeError\<close> on a content that is \<open>None\<close>. The result is the model and the messages, the
  first message with a token rewritten.
\<close>

fun scan_override :: "string \<Rightarrow> message list \<Rightarrow> exn + (string \<times> message list)" where
  "scan_override model [] = Inr (model, [])"
| "scan_override model (msg # msgs) =
     (case m_content msg of
        None \<Rightarrow> Inl (TypeError NoneToPattern)
      | Some content \<Rightarrow>
          (case search_override content of
             Some (before, tok, after) \<Rightarrow>
               Inr (tok, msg\<lparr>m_content := Some (strip (before @ after))\<rparr> # msgs)
           | None \<Rightarrow>
               (case scan_override model msgs of
                  Inl err \<Rightarrow> Inl err
                | Inr (model', msgs') \<Rightarrow> Inr (model', msg # msgs'))))"

subsection \<open>The stream loop\<close>

record collected_function =
  cf_name :: string
  cf_arguments :: string

text \<open>
  The local variables of the loop. \<open>tool_call_id\<close> is \<open>None\<close> while the variable is not
  bound. \<open>emitted\<close> is a history variable: the stream elements for which the loop has
  sent an edit, with the text sent.
\<close>

record stream_state =
  collected_messages :: "string list"
  collected_functions :: "collected_function pydict"
  tool_call_id :: "string option"
  emitted :: "(arrival \<times> string) list"

definition init_stream :: stream_state where
  "init_stream = \<lparr> collected_messages = [], collected_functions = [],
                    tool_call_id = None, emitted = [] \<rparr>"

datatype 'a outcome = Done 'a | Raised exn bot

text \<open>The body of \<open>for tool_call in tool_calls\<close>.\<close>

definition ingest :: "fragment \<Rightarrow> string option \<times> collected_function pydict
    \<Rightarrow> exn + (string option \<times> collected_function pydict)" where
  "ingest f st =
     (let tid = (case f_id f of Some i \<Rightarrow> Some i | None \<Rightarrow> fst st);
          named = (case f_name f of
                     None \<Rightarrow> Inr (snd st)
                   | Some n \<Rightarrow>
                       (case tid of
                          None \<Rightarrow> Inl UnboundLocalError
                        | Some i \<Rightarrow>
                            Inr (dict_set (snd st) i \<lparr> cf_name = n, cf_arguments = [] \<rparr>)))
      in case named of
           Inl err \<Rightarrow> Inl err
         | Inr cfs \<Rightarrow>
             (case f_arguments f of
                None \<Rightarrow> Inr (tid, cfs)
              | Some a \<Rightarrow>
                  (case tid of
                     None \<Rightarrow> Inl UnboundLocalError
                   | Some i \<Rightarrow>
                       (case dict_get cfs i of
                          None \<Rightarrow> Inl (KeyError i)
                        | Some cf \<Rightarrow>
                            Inr (tid, dict_set cfs i
                                   (cf\<lparr>cf_arguments := cf_arguments cf @ a\<rparr>))))))"

fun ingest_all :: "fragment list \<Rightarrow> string option \<times> collected_function pydict
    \<Rightarrow> exn + (string option \<times> collected_function pydict)" where
  "ingest_all [] st = Inr st"
| "ingest_all (f # fs) st =
     (case ingest f st of Inl err \<Rightarrow> Inl err | Inr st' \<Rightarrow> ingest_all fs st')"

text \<open>Python's truth value of an optional string: \<open>None\<close> and \<open>""\<close> are false.\<close>

definition truthy :: "string option \<Rightarrow> bool" where
  "truthy s = (case s of None \<Rightarrow> False | Some t \<Rightarrow> t \<noteq> [])"

definition delay :: real where
  "delay = 1"

text \<open>The test that ends in \<open>continue\<close>: no edit for this element.\<close>

definition throttled :: "bot \<Rightarrow> arrival \<Rightarrow> processed \<Rightarrow> bool" where
  "throttled b a p =
     (case last_edit_time b of
        None \<Rightarrow> False
      | Some t \<Rightarrow> time_at_check a - t < delay \<and> \<not> truthy (p_finish_reason p))"

definition reply_text :: "string list \<Rightarrow> processed \<Rightarrow> string" where
  "reply_text msgs p =
     (if \<not> truthy (p_finish_reason p) \<or> p_finish_reason p = Some ''tool_calls''
      then concat msgs @ ellipsis else concat msgs)"

text \<open>One iteration of \<open>for chunk in chat_completion\<close>.\<close>

definition stream_step :: "message_event \<Rightarrow> string \<Rightarrow> bool \<Rightarrow> arrival
    \<Rightarrow> stream_state \<times> bot \<Rightarrow> (stream_state \<times> bot) outcome" where
  "stream_step evt event_id is_mistral a sb =
     (let st = fst sb; b = snd sb;
          p = process_chunk (chunk a) is_mistral;
          ingested = (case p_tool_calls p of
                        None \<Rightarrow> Inr (tool_call_id st, collected_functions st)
                      | Some fs \<Rightarrow> ingest_all fs (tool_call_id st, collected_functions st))
      in case ingested of
           Inl err \<Rightarrow> Raised err b
         | Inr (tid, cfs) \<Rightarrow>
             (let msgs = (case p_content p of
                            None \<Rightarrow> collected_messages st
                          | Some chunk_message \<Rightarrow>
                              (if chunk_message \<noteq> []
                               then collected_messages st @ [chunk_message]
                               else collected_messages st));
                  st1 = st\<lparr> collected_messages := msgs, collected_functions := cfs,
                            tool_call_id := tid \<rparr>
              in if throttled b a p then Done (st1, b)
                 else Done (st1\<lparr> emitted := emitted st1 @ [(a, reply_text msgs p)] \<rparr>,
                            edit (b\<lparr>last_edit_time := Some (time_at_stamp a)\<rparr>)
                                 (evt_room_id evt) event_id (reply_text msgs p))))"

fun stream_loop :: "message_event \<Rightarrow> string \<Rightarrow> bool \<Rightarrow> arrival list
    \<Rightarrow> stream_state \<times> bot \<Rightarrow> (stream_state \<times> bot) outcome" where
  "stream_loop evt event_id is_mistral [] sb = Done sb"
| "stream_loop evt event_id is_mistral (a # as) sb =
     (case stream_step evt event_id is_mistral a sb of
        Raised err b \<Rightarrow> Raised err b
      | Done sb' \<Rightarrow> stream_loop evt event_id is_mistral as sb')"

subsection \<open>The tool phase\<close>

text \<open>
  The text of the status edit. \<open>json.loads\<close> stands outside any \<open>try\<close> here, so its
  \<open>JSONDecodeError\<close> leaves \<open>chat_gpt_request\<close>.
\<close>

fun calling_functions :: "env \<Rightarrow> collected_function pydict \<Rightarrow> string \<Rightarrow> exn + string" where
  "calling_functions e [] full_reply_content = Inr full_reply_content"
| "calling_functions e ((tool_id, cf) # cfs) full_reply_content =
     (case json_loads e (cf_arguments cf) of
        None \<Rightarrow> Inl JSONDecodeError
      | Some function_args \<Rightarrow>
          calling_functions e cfs
            (full_reply_content @ cf_name cf @ ''('' @ py_str e function_args @ '') ''))"

text \<open>
  The first \<open>try\<close> of the tool loop: the parsed arguments with the sender under \<open>"user"\<close>,
  or the empty list when parsing or the item assignment raises (the assignment raises
  \<open>TypeError\<close> on every parsed value that is not a dict).
\<close>

definition parse_args :: "env \<Rightarrow> string \<Rightarrow> string \<Rightarrow> json" where
  "parse_args e sender_name arguments =
     (case json_loads e arguments of
        Some (JObj kvs) \<Rightarrow> JObj (dict_set kvs ''user'' (JStr sender_name))
      | _ \<Rightarrow> JArr [])"

text \<open>
  \<open>available_functions\<close> is the dict of the two tools until the first \<open>except\<close> branch
  runs, which assigns it the text of its key list.
\<close>

datatype available = FunctionTable | KeyListText

definition lookup_function :: "env \<Rightarrow> string \<Rightarrow> ((string \<times> json) list \<Rightarrow> exn + string) option" where
  "lookup_function e n =
     (if n = ''weather'' then Some (get_weather e)
      else if n = ''fetch_electricity_prices'' then Some (fetch_prices e)
      else None)"

text \<open>
  The second \<open>try\<close>. On the dict, every exception is caught: the result is the new value
  of \<open>available_functions\<close> and the response. On the text, the subscript raises
  \<open>TypeError\<close>, the handler runs and its \<open>available_functions.keys()\<close> raises
  \<open>AttributeError\<close>, which nothing catches.
\<close>

definition call_function :: "env \<Rightarrow> available \<Rightarrow> string \<Rightarrow> json \<Rightarrow> exn + (available \<times> string)" where
  "call_function e av n function_args =
     (case av of
        KeyListText \<Rightarrow> Inl AttributeError
      | FunctionTable \<Rightarrow>
          (case lookup_function e n of
             None \<Rightarrow> Inr (KeyListText, ''Function error: '' @ exn_str e (KeyError n))
           | Some function_to_call \<Rightarrow>
               (case function_args of
                  JObj kwargs \<Rightarrow>
                    (case function_to_call kwargs of
                       Inr function_response \<Rightarrow> Inr (FunctionTable, function_response)
                     | Inl err \<Rightarrow> Inr (KeyListText, ''Function error: '' @ exn_str e err))
                | _ \<Rightarrow> Inr (KeyListText,
                           ''Function error: '' @ exn_str e (TypeError NotAMapping)))))"

definition assistant_call_message :: "env \<Rightarrow> string \<Rightarrow> string \<Rightarrow> json \<Rightarrow> message" where
  "assistant_call_message e tool_id n function_args =
     \<lparr> m_role = ''assistant'', m_name = None, m_content = None,
       m_tool_calls = Some [\<lparr> tc_id = tool_id, tc_type = ''function'', tc_name = n,
                              tc_arguments = json_dumps e function_args \<rparr>],
       m_tool_call_id = None \<rparr>"

definition tool_message :: "string \<Rightarrow> string \<Rightarrow> string \<Rightarrow> message" where
  "tool_message tool_id n function_response =
     \<lparr> m_role = ''tool'', m_name = Some n, m_content = Some function_response,
       m_tool_calls = None, m_tool_call_id = Some tool_id \<rparr>"

text \<open>The loop \<open>for tool_id, collected_function in collected_functions.items()\<close>.\<close>

fun run_tools :: "env \<Rightarrow> string \<Rightarrow> available \<Rightarrow> collected_function pydict
    \<Rightarrow> message list \<Rightarrow> exn + message list" where
  "run_tools e sender_name av [] messages = Inr messages"
| "run_tools e sender_name av ((tool_id, cf) # cfs) messages =
     (case call_function e av (cf_name cf) (parse_args e sender_name (cf_arguments cf)) of
        Inl err \<Rightarrow> Inl err
      | Inr (av', function_response) \<Rightarrow>
          run_tools e sender_name av' cfs
            (messages
             @ [assistant_call_message e tool_id (cf_name cf)
                  (parse_args e sender_name (cf_arguments cf)),
                tool_message tool_id (cf_name cf) function_response]))"

subsection \<open>One call of \<open>chat_gpt_request\<close>, up to its recursive call\<close>

text \<open>
  A call ends by returning, by raising, or in the recursive call
  \<open>chat_gpt_request("", messages[:-1], evt, event_id)\<close>, whose query and history are the
  arguments of \<open>Recurse\<close>. \<open>api_call\<close> is the request that the call made to a provider:
  the model and the messages sent.
\<close>

datatype step = Returned bot | Failed exn bot | Recurse bot string "message list"

type_synonym api_call = "string \<times> message list"

definition after_stream :: "env \<Rightarrow> message_event \<Rightarrow> string \<Rightarrow> message list
    \<Rightarrow> stream_state \<times> bot \<Rightarrow> step" where
  "after_stream e evt event_id messages sb =
     (let st = fst sb; b = snd sb in
      if collected_functions st \<noteq> []
      then (case calling_functions e (collected_functions st) ''Calling functions: '' of
              Inl err \<Rightarrow> Failed err b
            | Inr full_reply_content \<Rightarrow>
                (let b1 = edit b (evt_room_id evt) event_id full_reply_content in
                 case run_tools e (evt_sender evt) FunctionTable (collected_functions st)
                        messages of
                   Inl err \<Rightarrow> Failed err b1
                 | Inr messages' \<Rightarrow> Recurse b1 [] (butlast messages')))
      else Returned (edit b (evt_room_id evt) event_id (concat (collected_messages st))))"

text \<open>
  The part of \<open>chat_gpt_request\<close> from the first stream element to the return, the raise
  or the recursive call.
\<close>

definition consume_stream :: "env \<Rightarrow> message_event \<Rightarrow> string \<Rightarrow> bool \<Rightarrow> message list
    \<Rightarrow> arrival list \<Rightarrow> bot \<Rightarrow> step" where
  "consume_stream e evt event_id is_mistral messages chat_completion b =
     (case stream_loop evt event_id is_mistral chat_completion (init_stream, b) of
        Raised err b' \<Rightarrow> Failed err b'
      | Done sb \<Rightarrow> after_stream e evt event_id messages sb)"

text \<open>The state of the plugin in which a step ends.\<close>

fun step_bot :: "step \<Rightarrow> bot" where
  "step_bot (Returned b) = b"
| "step_bot (Failed err b) = b"
| "step_bot (Recurse b query history) = b"

definition request_step :: "env \<Rightarrow> message_event \<Rightarrow> string \<Rightarrow> bot \<Rightarrow> string
    \<Rightarrow> message list \<Rightarrow> api_call option \<times> step" where
  "request_step e evt event_id b query conversation_history =
     (case scan_override (config_model e) (build_messages e evt query conversation_history) of
        Inl err \<Rightarrow> (None, Failed err b)
      | Inr (model, messages) \<Rightarrow>
          (case create_chat_completion e messages model of
             Invalid msg \<Rightarrow> (None, Returned (edit b (evt_room_id evt) event_id msg))
           | Called sent_messages (Inl (ApiValueError msg)) \<Rightarrow>
               (Some (model, sent_messages),
                Returned (edit b (evt_room_id evt) event_id msg))
           | Called sent_messages (Inl (ApiException msg)) \<Rightarrow>
               (Some (model, sent_messages),
                Returned (edit b (evt_room_id evt) event_id (''API Error: '' @ msg)))
           | Called sent_messages (Inr chat_completion) \<Rightarrow>
               (Some (model, sent_messages),
                consume_stream e evt event_id (is_mistral_model e model) sent_messages
                  chat_completion b)))"

text \<open>
  The whole call, the recursion unfolded at most \<open>fuel\<close> times; \<open>None\<close> when that is not
  enough. The result is the exception that left the call, if any, the state of the plugin
  and the requests made to the providers, in order.
\<close>

fun chat_gpt_request :: "nat \<Rightarrow> env \<Rightarrow> message_event \<Rightarrow> string \<Rightarrow> bot \<Rightarrow> string
    \<Rightarrow> message list \<Rightarrow> (exn option \<times> bot \<times> api_call list) option" where
  "chat_gpt_request 0 e evt event_id b query conversation_history = None"
| "chat_gpt_request (Suc fuel) e evt event_id b query conversation_history =
     (case request_step e evt event_id b query conversation_history of
        (call, Returned b') \<Rightarrow> Some (None, b', (case call of None \<Rightarrow> [] | Some c \<Rightarrow> [c]))
      | (call, Failed err b') \<Rightarrow>
          Some (Some err, b', (case call of None \<Rightarrow> [] | Some c \<Rightarrow> [c]))
      | (call, Recurse b' query' history') \<Rightarrow>
          (case chat_gpt_request fuel e evt event_id b' query' history' of
             None \<Rightarrow> None
           | Some (r, b'', calls) \<Rightarrow>
               Some (r, b'', (case call of None \<Rightarrow> [] | Some c \<Rightarrow> [c]) @ calls)))"

section \<open>\<open>ChatGPTBot.get_conversation_history\<close> (bot.py)\<close>

definition history_entry :: "env \<Rightarrow> bot \<Rightarrow> string \<Rightarrow> room_event \<Rightarrow> message" where
  "history_entry e b event_id event =
     \<lparr> m_role = (if ev_sender event = bot_name e then ''assistant'' else ''user''),
       m_name = Some (filtered_name (ev_sender event)),
       m_content = Some
         (if ev_sender event = bot_name e
          then (case dict_get (assistant_replies b) event_id of
                  Some reply \<Rightarrow> reply
                | None \<Rightarrow> ev_body event)
          else sub_mention (bot_name e) 0
                 (case ev_formatted_body event of
                    None \<Rightarrow> ev_body event
                  | Some formatted \<Rightarrow> (if formatted \<noteq> [] then formatted else ev_body event))),
       m_tool_calls = None, m_tool_call_id = None \<rparr>"

text \<open>
  The loop \<open>while event_id\<close>, run for at most \<open>fuel\<close> fetches (\<open>None\<close> when that is not
  enough). \<open>client.get_event\<close> stands in no \<open>try\<close>: its exception leaves the function,
  which is the result \<open>Inl FetchError\<close>.
\<close>

fun get_conversation_history :: "nat \<Rightarrow> env \<Rightarrow> bot \<Rightarrow> string \<Rightarrow> string \<Rightarrow> message list
    \<Rightarrow> (exn + message list) option" where
  "get_conversation_history fuel e b room_id [] history = Some (Inr history)"
| "get_conversation_history 0 e b room_id (c # cs) history = None"
| "get_conversation_history (Suc fuel) e b room_id (c # cs) history =
     (case get_event e room_id (c # cs) of
        None \<Rightarrow> Some (Inl FetchError)
      | Some event \<Rightarrow>
          (let history' = (if ev_is_message event
                           then history_entry e b (c # cs) event # history else history)
           in case ev_reply_to event of
                None \<Rightarrow> Some (Inr history')
              | Some next_id \<Rightarrow>
                  (if next_id = [] then Some (Inr history')
                   else get_conversation_history fuel e b room_id next_id history')))"

section \<open>Properties of edit sequences\<close>

text \<open>
  \<open>spaced prev es\<close>: every edit of \<open>es\<close> was made for a stream element that carries a
  finish reason, or at least \<open>delay\<close> seconds after the time stored by the edit before it;
  for the first edit that time is \<open>prev\<close>, and \<open>None\<close> (no edit before) allows it.
\<close>

fun spaced :: "real option \<Rightarrow> (arrival \<times> string) list \<Rightarrow> bool" where
  "spaced prev [] = True"
| "spaced prev ((a, t) # es) =
     ((truthy (finish_reason (chunk a))
        \<or> (case prev of None \<Rightarrow> True | Some t0 \<Rightarrow> delay \<le> time_at_check a - t0))
      \<and> spaced (Some (time_at_stamp a)) es)"


text \<open>The response is in progress at a stream element: no finish reason, or the tool-call marker.\<close>

definition in_progress :: "arrival \<Rightarrow> bool" where
  "in_progress a = (\<not> truthy (finish_reason (chunk a))
                    \<or> finish_reason (chunk a) = Some ''tool_calls'')"



definition edit_texts :: "bot \<Rightarrow> string list" where
  "edit_texts b = map (\<lambda>(room_id, event_id, txt). txt) (sent b)"


section \<open>A concrete environment and concrete streams\<close>

text \<open>
  The argument text \<open>{"location":"Espoo"}\<close> and its two fragments \<open>{"loc\<close> and
  \<open>ation":"Espoo"}\<close>.
\<close>

definition espoo_text :: string where
  "espoo_text = ''{'' @ [dq] @ ''location'' @ [dq] @ '':'' @ [dq] @ ''Espoo'' @ [dq] @ ''}''"

definition espoo_head :: string where
  "espoo_head = ''{'' @ [dq] @ ''loc''"

definition espoo_tail :: string where
  "espoo_tail = ''ation'' @ [dq] @ '':'' @ [dq] @ ''Espoo'' @ [dq] @ ''}''"

definition espoo_object :: json where
  "espoo_object = JObj [(''location'', JStr ''Espoo'')]"

text \<open>
  \<open>json.loads\<close> on the texts that the examples use: the argument text, the empty object,
  and texts that are not JSON (such as the fragment \<open>{"loc\<close> alone).
\<close>

definition example_loads :: "string \<Rightarrow> json option" where
  "example_loads s =
     (if s = espoo_text then Some espoo_object
      else if s = ''{}'' then Some (JObj [])
      else None)"

text \<open>Python's \<open>str\<close> and \<open>json.dumps\<close> on values whose strings need no escape.\<close>

definition sq :: char where
  "sq = CHR 0x27"

fun join_with :: "string \<Rightarrow> string list \<Rightarrow> string" where
  "join_with sep [] = []"
| "join_with sep [x] = x"
| "join_with sep (x # y # ys) = x @ sep @ join_with sep (y # ys)"

fun example_str :: "json \<Rightarrow> string" where
  "example_str JNull = ''None''"
| "example_str (JBool v) = (if v then ''True'' else ''False'')"
| "example_str (JNum n) = n"
| "example_str (JStr s) = [sq] @ s @ [sq]"
| "example_str (JArr xs) = ''['' @ join_with '', '' (map example_str xs) @ '']''"
| "example_str (JObj kvs) =
     ''{'' @ join_with '', '' (map (\<lambda>kv. [sq] @ fst kv @ [sq] @ '': '' @ example_str (snd kv)) kvs)
       @ ''}''"

fun example_dumps :: "json \<Rightarrow> string" where
  "example_dumps JNull = ''null''"
| "example_dumps (JBool v) = (if v then ''true'' else ''false'')"
| "example_dumps (JNum n) = n"
| "example_dumps (JStr s) = [dq] @ s @ [dq]"
| "example_dumps (JArr xs) = ''['' @ join_with '', '' (map example_dumps xs) @ '']''"
| "example_dumps (JObj kvs) =
     ''{'' @ join_with '', '' (map (\<lambda>kv. [dq] @ fst kv @ [dq] @ '': '' @ example_dumps (snd kv)) kvs)
       @ ''}''"

fun example_exn_str :: "exn \<Rightarrow> string" where
  "example_exn_str (KeyError k) = [sq] @ k @ [sq]"
| "example_exn_str (TypeError NotAMapping) = ''argument after ** must be a mapping, not list''"
| "example_exn_str (ToolError msg) = msg"
| "example_exn_str err = []"

text \<open>
  The two tools, by their signatures \<open>get_weather(user, location)\<close> and
  \<open>fetch_prices(user, date)\<close>: a call without exactly these keywords raises.
\<close>

definition example_weather :: "(string \<times> json) list \<Rightarrow> exn + string" where
  "example_weather kwargs =
     (case (map_of kwargs ''user'', map_of kwargs ''location'') of
        (Some u, Some (JStr location)) \<Rightarrow>
          (if length kwargs = 2 then Inr (''Sunny in '' @ location)
           else Inl (ToolError ''get_weather() got an unexpected keyword argument''))
      | _ \<Rightarrow> Inl (ToolError ''get_weather() missing a required argument''))"

definition example_prices :: "(string \<times> json) list \<Rightarrow> exn + string" where
  "example_prices kwargs =
     (case (map_of kwargs ''user'', map_of kwargs ''date'') of
        (Some u, Some (JStr d)) \<Rightarrow>
          (if length kwargs = 2 then Inr (''Prices for '' @ d)
           else Inl (ToolError ''fetch_prices() got an unexpected keyword argument''))
      | _ \<Rightarrow> Inl (ToolError ''fetch_prices() missing a required argument''))"

text \<open>Stream elements, with one clock reading for both uses.\<close>

definition text_chunk :: "string \<Rightarrow> real \<Rightarrow> arrival" where
  "text_chunk s t =
     \<lparr> chunk = \<lparr> delta_content = Some s, finish_reason = None, delta_tool_calls = None \<rparr>,
       time_at_check = t, time_at_stamp = t \<rparr>"

definition finish_chunk :: "string \<Rightarrow> real \<Rightarrow> arrival" where
  "finish_chunk reason t =
     \<lparr> chunk = \<lparr> delta_content = None, finish_reason = Some reason, delta_tool_calls = None \<rparr>,
       time_at_check = t, time_at_stamp = t \<rparr>"

definition tool_chunk :: "fragment list \<Rightarrow> real \<Rightarrow> arrival" where
  "tool_chunk fs t =
     \<lparr> chunk = \<lparr> delta_content = None, finish_reason = None, delta_tool_calls = Some fs \<rparr>,
       time_at_check = t, time_at_stamp = t \<rparr>"

definition weather_fragments :: "fragment list" where
  "weather_fragments =
     [\<lparr> f_id = Some ''1'', f_name = Some ''weather'', f_arguments = Some espoo_head \<rparr>,
      \<lparr> f_id = Some ''1'', f_name = None, f_arguments = Some espoo_tail \<rparr>]"

definition weather_stream :: "arrival list" where
  "weather_stream =
     [tool_chunk [weather_fragments ! 0] 0, tool_chunk [weather_fragments ! 1] (1/10),
      finish_chunk ''tool_calls'' (2/10)]"

definition malformed_stream :: "arrival list" where
  "malformed_stream =
     [tool_chunk [weather_fragments ! 0] 0, finish_chunk ''tool_calls'' (1/10)]"

definition two_tools_stream :: "arrival list" where
  "two_tools_stream =
     [tool_chunk [\<lparr> f_id = Some ''1'', f_name = Some ''forecast'', f_arguments = Some ''{}'' \<rparr>] 0,
      tool_chunk [\<lparr> f_id = Some ''2'', f_name = Some ''weather'',
                    f_arguments = Some espoo_text \<rparr>] (1/10),
      finish_chunk ''tool_calls'' (2/10)]"

definition answer_stream :: "arrival list" where
  "answer_stream = [text_chunk ''It is sunny in Espoo.'' 3, finish_chunk ''stop'' (31/10)]"

text \<open>
  The OpenAI client of the examples: it answers a conversation that holds a tool call, and
  asks for tools otherwise, by the text of the last message.
\<close>

definition example_openai :: "string \<Rightarrow> message list \<Rightarrow> api_failure + arrival list" where
  "example_openai model messages =
     (if \<exists>msg \<in> set messages. m_tool_calls msg \<noteq> None then Inr answer_stream
      else if messages \<noteq> [] \<and> m_content (last messages) = Some ''bad arguments''
      then Inr malformed_stream
      else if messages \<noteq> [] \<and> m_content (last messages) = Some ''two tools''
      then Inr two_tools_stream
      else Inr weather_stream)"

text \<open>
  The events of the examples: \<open>$3\<close> replies to \<open>$2\<close>, which replies to \<open>$1\<close>; \<open>$5\<close> replies
  to \<open>$4\<close>, which the client cannot fetch.
\<close>

definition event_1 :: room_event where
  "event_1 = \<lparr> ev_is_message = True, ev_sender = ''@alice:example.org'',
               ev_body = ''hello'', ev_formatted_body = None, ev_reply_to = None \<rparr>"

definition event_2 :: room_event where
  "event_2 = \<lparr> ev_is_message = True, ev_sender = ''@bot:example.org'',
               ev_body = ''Hi Alice'', ev_formatted_body = None,
               ev_reply_to = Some ''$1'' \<rparr>"

definition event_3 :: room_event where
  "event_3 = \<lparr> ev_is_message = True, ev_sender = ''@alice:example.org'',
               ev_body = ''Bot: and now?'',
               ev_formatted_body =
                 Some (mention_open ''@bot:example.org'' @ ''Bot</a>: and now?''),
               ev_reply_to = Some ''$2'' \<rparr>"

definition event_5 :: room_event where
  "event_5 = \<lparr> ev_is_message = True, ev_sender = ''@alice:example.org'',
               ev_body = ''still there?'', ev_formatted_body = None,
               ev_reply_to = Some ''$4'' \<rparr>"

definition example_events :: "string \<Rightarrow> string \<Rightarrow> room_event option" where
  "example_events room_id event_id =
     (if event_id = ''$1'' then Some event_1
      else if event_id = ''$2'' then Some event_2
      else if event_id = ''$3'' then Some event_3
      else if event_id = ''$5'' then Some event_5
      else None)"

definition example_env :: env where
  "example_env =
     \<lparr> config_model = ''gpt-4o'', bot_name = ''@bot:example.org'',
       allowed_models = [''gpt-4o'', ''gpt-4o-mini''],
       mistral_allowed_models = [''mistral-small''],
       current_date = ''Wednesday November 04, 2026'', current_time = ''12:00 UTC+02:00'',
       json_loads = example_loads, json_dumps = example_dumps, py_str = example_str,
       exn_str = example_exn_str,
       get_weather = example_weather, fetch_prices = example_prices,
       openai_create = example_openai,
       mistral_chat_stream = (\<lambda>model messages. Inr answer_stream),
       get_event = example_events \<rparr>"

definition example_evt :: message_event where
  "example_evt = \<lparr> evt_sender = ''@alice:example.org'', evt_room_id = ''!room'' \<rparr>"

section \<open>Reply chains in the event store\<close>

definition next_id :: "room_event \<Rightarrow> string" where
  "next_id ev = (case ev_reply_to ev of None \<Rightarrow> [] | Some n \<Rightarrow> n)"

text \<open>
  \<open>reply_chain e room_id start ch\<close>: following the reply relation from the event id
  \<open>start\<close>, the client delivers the events of \<open>ch\<close> (each with its id, newest first), and
  the last of them replies to nothing. \<open>broken_chain\<close>: it delivers the events of \<open>ch\<close>,
  and the fetch of the event that the last of them replies to (of \<open>start\<close>, when \<open>ch\<close> is
  empty) fails.
\<close>

fun reply_chain :: "env \<Rightarrow> string \<Rightarrow> string \<Rightarrow> (string \<times> room_event) list \<Rightarrow> bool" where
  "reply_chain e room_id start [] = (start = [])"
| "reply_chain e room_id start ((k, ev) # rest) =
     (start = k \<and> k \<noteq> [] \<and> get_event e room_id k = Some ev
      \<and> reply_chain e room_id (next_id ev) rest)"

fun broken_chain :: "env \<Rightarrow> string \<Rightarrow> string \<Rightarrow> (string \<times> room_event) list \<Rightarrow> bool" where
  "broken_chain e room_id start [] = (start \<noteq> [] \<and> get_event e room_id start = None)"
| "broken_chain e room_id start ((k, ev) # rest) =
     (start = k \<and> k \<noteq> [] \<and> get_event e room_id k = Some ev
      \<and> broken_chain e room_id (next_id ev) rest)"

text \<open>The messages of the message events of a chain, in the order of the chain.\<close>

definition chain_entries :: "env \<Rightarrow> bot \<Rightarrow> (string \<times> room_event) list \<Rightarrow> message list" where
  "chain_entries e b ch =
     map (\<lambda>(k, ev). history_entry e b k ev) (filter (\<lambda>(k, ev). ev_is_message ev) ch)"

section \<open>Facts about the reply cache\<close>

lemma dict_set_absent:
  "k \<notin> set (dict_keys d) \<Longrightarrow> dict_set d k v = d @ [(k, v)]"
  by (induction d) (auto simp: dict_keys_def)

lemma dict_set_present_keys:
  "k \<in> set (dict_keys d) \<Longrightarrow> dict_keys (dict_set d k v) = dict_keys d"
  by (induction d) (force simp: dict_keys_def)+

lemma dict_set_present_length:
  "k \<in> set (dict_keys d) \<Longrightarrow> length (dict_set d k v) = length d"
  by (induction d) (force simp: dict_keys_def)+

lemma dict_get_dict_set:
  "dict_get (dict_set d k v) k' = (if k' = k then Some v else dict_get d k')"
  by (induction d) (auto simp: dict_get_def)

lemma edit_max_messages [simp]: "max_messages (edit b r k v) = max_messages b"
  by (simp add: edit_def Let_def)

lemma edit_new_key:
  assumes "k \<notin> set (dict_keys (assistant_replies b))"
  shows "dict_keys (assistant_replies (edit b r k v)) =
         (if length (assistant_replies b) < max_messages b
          then dict_keys (assistant_replies b) @ [k]
          else tl (dict_keys (assistant_replies b) @ [k]))"
  using assms by (simp add: edit_def Let_def dict_set_absent dict_keys_def map_tl)

lemma edits_Cons: "edits b r ((k, v) # es) = edits (edit b r k v) r es"
  by (simp add: edits_def)

lemma edits_max_messages [simp]: "max_messages (edits b r es) = max_messages b"
  by (induction es arbitrary: b) (auto simp: edits_def)

lemma edits_fifo:
  assumes "length (assistant_replies b) \<le> max_messages b"
      and "distinct (dict_keys (assistant_replies b) @ map fst es)"
  shows "dict_keys (assistant_replies (edits b r es)) =
         drop (length (assistant_replies b) + length es - max_messages b)
              (dict_keys (assistant_replies b) @ map fst es)"
  using assms
proof (induction es arbitrary: b)
  case Nil
  then show ?case by (simp add: edits_def dict_keys_def)
next
  case (Cons e es)
  obtain k v where e: "e = (k, v)" by (cases e)
  let ?c = "assistant_replies b"
  let ?b1 = "edit b r k v"
  from Cons.prems(2) e have fresh: "k \<notin> set (dict_keys ?c)" by auto
  have len_keys: "length (dict_keys ?c) = length ?c" by (simp add: dict_keys_def)
  show ?case
  proof (cases "length ?c < max_messages b")
    case True
    have k1: "dict_keys (assistant_replies ?b1) = dict_keys ?c @ [k]"
      using edit_new_key[OF fresh, of r v] True by simp
    then have l1: "length (assistant_replies ?b1) = Suc (length ?c)"
      by (metis dict_keys_def length_append_singleton length_map)
    have "dict_keys (assistant_replies (edits ?b1 r es)) =
          drop (length (assistant_replies ?b1) + length es - max_messages ?b1)
               (dict_keys (assistant_replies ?b1) @ map fst es)"
      using Cons.prems True e k1 l1 by (intro Cons.IH) auto
    then show ?thesis
      using e k1 l1 by (simp add: edits_Cons)
  next
    case False
    with Cons.prems(1) have full: "length ?c = max_messages b" by simp
    have k1: "dict_keys (assistant_replies ?b1) = tl (dict_keys ?c @ [k])"
      using edit_new_key[OF fresh, of r v] False by simp
    then have l1: "length (assistant_replies ?b1) = length ?c"
      by (metis dict_keys_def length_map length_tl length_append_singleton diff_Suc_1)
    have d1: "distinct (dict_keys (assistant_replies ?b1) @ map fst es)"
      using Cons.prems(2) e k1 by (cases "dict_keys ?c") auto
    have "dict_keys (assistant_replies (edits ?b1 r es)) =
          drop (length (assistant_replies ?b1) + length es - max_messages ?b1)
               (dict_keys (assistant_replies ?b1) @ map fst es)"
      using l1 full d1 by (intro Cons.IH) auto
    then have "dict_keys (assistant_replies (edits ?b1 r es)) =
               drop (length es) (tl (dict_keys ?c @ [k]) @ map fst es)"
      using k1 l1 full by simp
    also have "\<dots> = drop (Suc (length es)) ((dict_keys ?c @ [k]) @ map fst es)"
      by (cases "dict_keys ?c") (simp_all add: drop_Suc)
    finally show ?thesis
      using e full by (simp add: edits_Cons)
  qed
qed

lemma edit_bound:
  assumes "length (assistant_replies b) \<le> max_messages b"
  shows "length (assistant_replies (edit b r k v)) \<le> max_messages b"
proof (cases "k \<in> set (dict_keys (assistant_replies b))")
  case True
  with assms show ?thesis
    by (simp add: edit_def Let_def dict_set_present_length)
next
  case False
  with assms show ?thesis
    by (simp add: edit_def Let_def dict_set_absent)
qed

lemma edits_bound:
  "length (assistant_replies b) \<le> max_messages b \<Longrightarrow>
   length (assistant_replies (edits b r es)) \<le> max_messages b"
proof (induction es arbitrary: b)
  case Nil
  then show ?case by (simp add: edits_def)
next
  case (Cons e es)
  obtain k v where e: "e = (k, v)" by (cases e)
  have "length (assistant_replies (edits (edit b r k v) r es)) \<le> max_messages (edit b r k v)"
    using Cons.prems by (intro Cons.IH) (simp add: edit_bound)
  then show ?case by (simp add: e edits_Cons)
qed

lemma edit_present:
  assumes "length (assistant_replies b) \<le> max_messages b"
      and "k \<in> set (dict_keys (assistant_replies b))"
  shows "assistant_replies (edit b r k v) = dict_set (assistant_replies b) k v"
  using assms by (simp add: edit_def Let_def dict_set_present_length)

lemma keys_150_distinct:
  "distinct (map (\<lambda>n. replicate n CHR ''e'') [0..<150])"
  by (simp only: distinct_map distinct_upt inj_on_def) (auto dest: arg_cong[where f=length])

section \<open>Facts about the stream loop\<close>



lemma sent_edit [simp]: "sent (edit b r k v) = sent b @ [(r, k, v)]"
  by (simp add: edit_def Let_def)

lemma last_edit_time_edit [simp]: "last_edit_time (edit b r k v) = last_edit_time b"
  by (simp add: edit_def Let_def)

lemma p_finish_process [simp]:
  "p_finish_reason (process_chunk c im) = finish_reason c"
  by (simp add: process_chunk_def)

lemma spaced_append:
  "spaced prev (xs @ ys) =
     (spaced prev xs \<and>
      spaced (if xs = [] then prev else Some (time_at_stamp (fst (last xs)))) ys)"
  by (induction xs arbitrary: prev) auto


lemma reply_text_finished:
  "\<not> in_progress a \<Longrightarrow> reply_text msgs (process_chunk (chunk a) im) = concat msgs"
  by (auto simp: in_progress_def reply_text_def)













lemma stream_step_functions:
  assumes "(case p_tool_calls (process_chunk (chunk a) im) of
              None \<Rightarrow> Inr (tool_call_id st, collected_functions st)
            | Some fs \<Rightarrow> ingest_all fs (tool_call_id st, collected_functions st))
           = Inr (tid, cfs)"
  shows "\<exists>st' b'. stream_step evt eid im a (st, b) = Done (st', b')
           \<and> tool_call_id st' = tid \<and> collected_functions st' = cfs"
  using assms by (auto simp: stream_step_def Let_def)

section \<open>The walk along the reply chain\<close>

lemma reply_chain_empty_start:
  "reply_chain e room_id [] ch \<Longrightarrow> ch = []"
  by (cases ch) auto

lemma chain_entries_Cons:
  "chain_entries e b ((k, ev) # rest) =
     (if ev_is_message ev then history_entry e b k ev # chain_entries e b rest
      else chain_entries e b rest)"
  by (simp add: chain_entries_def)

lemma history_of_chain:
  assumes "reply_chain e room_id start ch" and "length ch \<le> fuel"
  shows "get_conversation_history fuel e b room_id start history
           = Some (Inr (rev (chain_entries e b ch) @ history))"
  using assms
proof (induction ch arbitrary: start fuel history)
  case Nil
  then show ?case by (simp add: chain_entries_def)
next
  case (Cons p rest)
  obtain k ev where p: "p = (k, ev)" by (cases p)
  from Cons.prems p have k: "start = k" "k \<noteq> []" and ev: "get_event e room_id k = Some ev"
    and tail: "reply_chain e room_id (next_id ev) rest"
    by auto
  from k obtain c cs where kc: "k = c # cs" by (cases k) auto
  from Cons.prems(2) obtain n where fuel: "fuel = Suc n" and n: "length rest \<le> n"
    by (cases fuel) auto
  let ?h = "if ev_is_message ev then history_entry e b k ev # history else history"
  have entries: "rev (chain_entries e b (p # rest)) @ history
                   = rev (chain_entries e b rest) @ ?h"
    by (simp add: p chain_entries_Cons)
  show ?case
  proof (cases "next_id ev = []")
    case True
    with tail have "rest = []" using reply_chain_empty_start by metis
    with True show ?thesis
      using k kc ev fuel p
      by (auto simp: next_id_def chain_entries_def Let_def split: option.splits)
  next
    case False
    then obtain nx where nx: "ev_reply_to ev = Some nx" "nx \<noteq> []" "next_id ev = nx"
      by (auto simp: next_id_def split: option.splits)
    have "get_conversation_history n e b room_id nx ?h
            = Some (Inr (rev (chain_entries e b rest) @ ?h))"
      using Cons.IH[of nx n ?h] tail n nx by simp
    then show ?thesis
      using k kc ev fuel nx entries by (auto simp: Let_def split: if_splits)
  qed
qed

lemma history_of_broken_chain:
  assumes "broken_chain e room_id start ch" and "length ch < fuel"
  shows "get_conversation_history fuel e b room_id start history = Some (Inl FetchError)"
  using assms
proof (induction ch arbitrary: start fuel history)
  case Nil
  then obtain c cs n where "start = c # cs" "fuel = Suc n" "get_event e room_id start = None"
    by (cases start; cases fuel) auto
  then show ?case by simp
next
  case (Cons p rest)
  obtain k ev where p: "p = (k, ev)" by (cases p)
  from Cons.prems p have k: "start = k" "k \<noteq> []" and ev: "get_event e room_id k = Some ev"
    and tail: "broken_chain e room_id (next_id ev) rest"
    by auto
  from k obtain c cs where kc: "k = c # cs" by (cases k) auto
  from Cons.prems(2) obtain n where fuel: "fuel = Suc n" and n: "length rest < n"
    by (cases fuel) auto
  have "next_id ev \<noteq> []" using tail by (cases rest) auto
  then obtain nx where nx: "ev_reply_to ev = Some nx" "nx \<noteq> []" "next_id ev = nx"
    by (auto simp: next_id_def split: option.splits)
  let ?h = "if ev_is_message ev then history_entry e b k ev # history else history"
  have "get_conversation_history n e b room_id nx ?h = Some (Inl FetchError)"
    using Cons.IH[of nx n ?h] tail n nx by simp
  then show ?case
    using k kc ev fuel nx by (auto simp: Let_def split: if_splits)
qed

section \<open>Claims about the reply cache\<close>

text \<open>
  Claim C2. The reply cache never holds more than 100 entries, whatever edits are made
  from the initial state, and it evicts in insertion order: from any cache state within
  the bound, after 150 edits under 150 distinct identifiers that were not in the cache,
  the keys of the cache are exactly the 100 identifiers inserted last, in insertion
  order, each with the text written under it, and none of the 50 inserted first is
  present.
\<close>

theorem reply_cache_fifo:
  assumes "max_messages b = 100"
      and "length (assistant_replies b) \<le> 100"
      and "distinct (dict_keys (assistant_replies b) @ map fst es)"
      and "length es = 150"
  shows "length (assistant_replies (edits init_bot r' es')) \<le> 100
       \<and> dict_keys (assistant_replies (edits b r es)) = drop 50 (map fst es)
       \<and> length (assistant_replies (edits b r es)) = 100
       \<and> set (take 50 (map fst es)) \<inter> set (dict_keys (assistant_replies (edits b r es))) = {}"
proof -
  have "length (assistant_replies (edits init_bot r' es')) \<le> max_messages init_bot"
    by (rule edits_bound) (simp add: init_bot_def)
  then have bound: "length (assistant_replies (edits init_bot r' es')) \<le> 100"
    by (simp add: init_bot_def)
  have len: "length (dict_keys (assistant_replies b)) = length (assistant_replies b)"
    by (simp add: dict_keys_def)
  have "dict_keys (assistant_replies (edits b r es)) =
        drop (length (assistant_replies b) + length es - max_messages b)
             (dict_keys (assistant_replies b) @ map fst es)"
    using assms(1,2,3) by (intro edits_fifo) simp_all
  also have "length (assistant_replies b) + length es - max_messages b
             = length (assistant_replies b) + 50"
    using assms(1,4) by simp
  also have "drop (length (assistant_replies b) + 50)
               (dict_keys (assistant_replies b) @ map fst es) = drop 50 (map fst es)"
    using len by (simp add: drop_append)
  finally have keys: "dict_keys (assistant_replies (edits b r es)) = drop 50 (map fst es)" .
  have "length (dict_keys (assistant_replies (edits b r es))) = 100"
    unfolding keys using assms(4) by simp
  then have size: "length (assistant_replies (edits b r es)) = 100"
    by (simp add: dict_keys_def)
  have "distinct (map fst es)"
    using assms(3) by simp
  then have "distinct (take 50 (map fst es) @ drop 50 (map fst es))"
    by (simp only: append_take_drop_id)
  then have "set (take 50 (map fst es)) \<inter> set (drop 50 (map fst es)) = {}"
    by (simp only: distinct_append)
  then have disj: "set (take 50 (map fst es)) \<inter>
                   set (dict_keys (assistant_replies (edits b r es))) = {}"
    by (simp only: keys)
  from bound keys size disj show ?thesis by (intro conjI)
qed

theorem reply_cache_fifo_witness:
  "dict_keys (assistant_replies
     (edits init_bot ''!room'' (map (\<lambda>n. (replicate n CHR ''e'', ''text'')) [0..<150])))
   = drop 50 (map fst (map (\<lambda>n. (replicate n CHR ''e'', ''text'')) [0..<150]))
   \<and> length (assistant_replies
     (edits init_bot ''!room'' (map (\<lambda>n. (replicate n CHR ''e'', ''text'')) [0..<150]))) = 100"
proof -
  let ?es = "map (\<lambda>n. (replicate n CHR ''e'', ''text'')) [0..<150]"
  have fst_es: "map fst ?es = map (\<lambda>n. replicate n CHR ''e'') [0..<150]"
    by (simp only: map_map comp_def fst_conv)
  have h1: "max_messages init_bot = 100" by (simp add: init_bot_def)
  have h2: "length (assistant_replies init_bot) \<le> 100" by (simp add: init_bot_def)
  have "dict_keys (assistant_replies init_bot) = []"
    by (simp add: init_bot_def dict_keys_def)
  then have h3: "distinct (dict_keys (assistant_replies init_bot) @ map fst ?es)"
    by (simp only: append_Nil fst_es keys_150_distinct)
  have "length ?es = 150 - 0" by (simp only: length_map length_upt)
  then have h4: "length ?es = 150" by (simp only: diff_zero)
  note w = reply_cache_fifo[OF h1 h2 h3 h4, of "''!room''" "[]" "''!room''"]
  from w[THEN conjunct2, THEN conjunct1] w[THEN conjunct2, THEN conjunct2, THEN conjunct1]
  show ?thesis by (rule conjI)
qed

text \<open>
  Claim C10. In a cache within its bound, writing under an identifier that is already
  present replaces the stored text and nothing else: the key order and the size are the
  same, every other key keeps its text, and no key is evicted. Whenever an edit evicts a
  key, the edited identifier was absent before and the cache was full.
\<close>

theorem reply_cache_overwrite:
  assumes "length (assistant_replies b) \<le> max_messages b"
  shows "(k \<in> set (dict_keys (assistant_replies b)) \<longrightarrow>
            dict_keys (assistant_replies (edit b r k v)) = dict_keys (assistant_replies b)
          \<and> length (assistant_replies (edit b r k v)) = length (assistant_replies b)
          \<and> dict_get (assistant_replies (edit b r k v)) k = Some v
          \<and> (\<forall>k'. k' \<noteq> k \<longrightarrow> dict_get (assistant_replies (edit b r k v)) k'
                                 = dict_get (assistant_replies b) k')
          \<and> \<not> evicted (assistant_replies b) (assistant_replies (edit b r k v)))
       \<and> (evicted (assistant_replies b) (assistant_replies (edit b r k v)) \<longrightarrow>
            k \<notin> set (dict_keys (assistant_replies b))
          \<and> length (assistant_replies b) = max_messages b)"
proof -
  let ?c = "assistant_replies b"
  let ?c' = "assistant_replies (edit b r k v)"
  have present: "dict_keys ?c' = dict_keys ?c \<and> length ?c' = length ?c
      \<and> dict_get ?c' k = Some v
      \<and> (\<forall>k'. k' \<noteq> k \<longrightarrow> dict_get ?c' k' = dict_get ?c k')
      \<and> \<not> evicted ?c ?c'"
    if "k \<in> set (dict_keys ?c)"
    using edit_present[OF assms that, of r v] that
    by (simp add: dict_set_present_keys dict_set_present_length dict_get_dict_set evicted_def)
  have absent_room: "\<not> evicted ?c ?c'"
    if "k \<notin> set (dict_keys ?c)" "length ?c < max_messages b"
    using edit_new_key[OF that(1), of r v] that(2) by (simp add: evicted_def)
  have "k \<notin> set (dict_keys ?c) \<and> length ?c = max_messages b" if ev: "evicted ?c ?c'"
  proof -
    have "k \<notin> set (dict_keys ?c)" using present ev by blast
    moreover have "\<not> length ?c < max_messages b" using absent_room ev calculation by blast
    ultimately show ?thesis using assms by simp
  qed
  with present show ?thesis by blast
qed

theorem reply_cache_overwrite_witness:
  "dict_keys (assistant_replies
      (edit (init_bot\<lparr>assistant_replies := [(''a'', ''x''), (''b'', ''y'')], max_messages := 2\<rparr>)
            ''!room'' ''a'' ''z'')) = [''a'', ''b'']
   \<and> dict_get (assistant_replies
      (edit (init_bot\<lparr>assistant_replies := [(''a'', ''x''), (''b'', ''y'')], max_messages := 2\<rparr>)
            ''!room'' ''a'' ''z'')) ''a'' = Some ''z''
   \<and> evicted [(''a'', ''x''), (''b'', ''y'')] (assistant_replies
      (edit (init_bot\<lparr>assistant_replies := [(''a'', ''x''), (''b'', ''y'')], max_messages := 2\<rparr>)
            ''!room'' ''c'' ''z''))
   \<and> ''c'' \<notin> set (dict_keys [(''a'', ''x''), (''b'', ''y'')])"
proof -
  let ?b = "init_bot\<lparr>assistant_replies := [(''a'', ''x''), (''b'', ''y'')], max_messages := 2\<rparr>"
  have inv: "length (assistant_replies ?b) \<le> max_messages ?b" by simp
  have mem: "''a'' \<in> set (dict_keys (assistant_replies ?b))" by (simp add: dict_keys_def)
  have ev: "evicted (assistant_replies ?b) (assistant_replies (edit ?b ''!room'' ''c'' ''z''))"
    by (simp add: evicted_def edit_def dict_keys_def)
  from reply_cache_overwrite[OF inv, of "''a''" "''!room''" "''z''"] mem
  have p1: "dict_keys (assistant_replies (edit ?b ''!room'' ''a'' ''z'')) = [''a'', ''b'']
          \<and> dict_get (assistant_replies (edit ?b ''!room'' ''a'' ''z'')) ''a'' = Some ''z''"
    by (simp add: dict_keys_def)
  from reply_cache_overwrite[OF inv, of "''c''" "''!room''" "''z''"] ev
  have p2: "''c'' \<notin> set (dict_keys (assistant_replies ?b))" by blast
  from p1 p2 ev show ?thesis by simp
qed

section \<open>Claims about the stream loop\<close>



section \<open>Claims about the conversation history\<close>

text \<open>
  Claim C3, as amended. On a reply chain of N message events that the client delivers,
  with fuel for N fetches, \<open>get_conversation_history\<close> returns exactly the N messages of
  the events, oldest first. When the fetch of an event of the walk fails, the function
  does not return: the exception of the fetch leaves it, whatever was collected before.
\<close>

theorem history_walk:
  "(reply_chain e room_id start ch \<and> list_all (\<lambda>(k, ev). ev_is_message ev) ch
      \<and> length ch \<le> fuel \<longrightarrow>
        get_conversation_history fuel e b room_id start []
          = Some (Inr (rev (map (\<lambda>(k, ev). history_entry e b k ev) ch)))
      \<and> length (rev (map (\<lambda>(k, ev). history_entry e b k ev) ch)) = length ch)
   \<and> (broken_chain e room_id start ch \<and> length ch < fuel \<longrightarrow>
        get_conversation_history fuel e b room_id start [] = Some (Inl FetchError))"
proof (intro conjI impI)
  assume a: "reply_chain e room_id start ch \<and> list_all (\<lambda>(k, ev). ev_is_message ev) ch
      \<and> length ch \<le> fuel"
  then have "filter (\<lambda>(k, ev). ev_is_message ev) ch = ch"
    by (simp add: list_all_iff filter_id_conv)
  then have "chain_entries e b ch = map (\<lambda>(k, ev). history_entry e b k ev) ch"
    by (simp add: chain_entries_def)
  with a history_of_chain[of e room_id start ch fuel b "[]"]
  show "get_conversation_history fuel e b room_id start []
          = Some (Inr (rev (map (\<lambda>(k, ev). history_entry e b k ev) ch)))"
    by simp
  show "length (rev (map (\<lambda>(k, ev). history_entry e b k ev) ch)) = length ch"
    by simp
next
  assume "broken_chain e room_id start ch \<and> length ch < fuel"
  then show "get_conversation_history fuel e b room_id start [] = Some (Inl FetchError)"
    using history_of_broken_chain by blast
qed

theorem history_walk_witness:
  "reply_chain example_env ''!room'' ''$3'' [(''$3'', event_3), (''$2'', event_2), (''$1'', event_1)]
   \<and> get_conversation_history 3 example_env init_bot ''!room'' ''$3'' []
       = Some (Inr [history_entry example_env init_bot ''$1'' event_1,
                    history_entry example_env init_bot ''$2'' event_2,
                    history_entry example_env init_bot ''$3'' event_3])
   \<and> broken_chain example_env ''!room'' ''$5'' [(''$5'', event_5)]
   \<and> get_conversation_history 2 example_env init_bot ''!room'' ''$5'' []
       = Some (Inl FetchError)"
proof -
  let ?ch = "[(''$3'', event_3), (''$2'', event_2), (''$1'', event_1)]"
  have c: "reply_chain example_env ''!room'' ''$3'' ?ch"
    by (simp add: example_env_def example_events_def next_id_def event_1_def event_2_def
          event_3_def)
  have m: "list_all (\<lambda>(k, ev). ev_is_message ev) ?ch"
    by (simp add: event_1_def event_2_def event_3_def)
  have br: "broken_chain example_env ''!room'' ''$5'' [(''$5'', event_5)]"
    by (simp add: example_env_def example_events_def next_id_def event_5_def)
  from history_walk[of example_env "''!room''" "''$3''" ?ch 3 init_bot] c m
  have r1: "get_conversation_history 3 example_env init_bot ''!room'' ''$3'' []
       = Some (Inr [history_entry example_env init_bot ''$1'' event_1,
                    history_entry example_env init_bot ''$2'' event_2,
                    history_entry example_env init_bot ''$3'' event_3])"
    by simp
  from history_walk[of example_env "''!room''" "''$5''" "[(''$5'', event_5)]" 2 init_bot] br
  have r2: "get_conversation_history 2 example_env init_bot ''!room'' ''$5'' []
       = Some (Inl FetchError)"
    by simp
  from c r1 br r2 show ?thesis by (intro conjI)
qed

text \<open>
  The claim as stated fails where the event \<open>$5\<close> replies to an event that cannot be
  fetched: the result is the exception, not the one message collected before it.
\<close>

theorem fetch_failure_counterexample:
  "get_conversation_history 2 example_env init_bot ''!room'' ''$5'' [] = Some (Inl FetchError)
   \<and> get_conversation_history 2 example_env init_bot ''!room'' ''$5'' []
       \<noteq> Some (Inr [history_entry example_env init_bot ''$5'' event_5])"
proof -
  have "get_conversation_history 2 example_env init_bot ''!room'' ''$5'' []
          = Some (Inl FetchError)"
    by (simp add: numeral_2_eq_2 example_env_def example_events_def event_5_def Let_def)
  then show ?thesis by simp
qed

section \<open>Claims about the tool-call fragments\<close>

text \<open>
  Claim C9. The fragments with the id \<open>1\<close>, the name \<open>weather\<close> and the argument texts
  \<open>{"loc\<close> and \<open>ation":"Espoo"}\<close>, whether they come in one stream element or in two,
  are collected as exactly one tool call with the id \<open>1\<close>, the name \<open>weather\<close> and the
  argument text \<open>{"location":"Espoo"}\<close>. Where \<open>json.loads\<close> parses that text to the object
  with the one key \<open>location\<close>, the status edit shows the call with exactly that object,
  and the tool phase runs exactly one call, of \<open>get_weather\<close>, with that object and the
  sender under \<open>user\<close>, and appends one assistant message with the id \<open>1\<close> and the name
  \<open>weather\<close> and one tool message with the id \<open>1\<close>.
\<close>

theorem fragments_round_trip:
  "ingest_all weather_fragments (None, [])
     = Inr (Some ''1'', [(''1'', \<lparr> cf_name = ''weather'', cf_arguments = espoo_text \<rparr>)])
   \<and> (\<exists>st b'. stream_loop evt event_id False weather_stream (init_stream, b) = Done (st, b')
         \<and> collected_functions st
             = [(''1'', \<lparr> cf_name = ''weather'', cf_arguments = espoo_text \<rparr>)])
   \<and> (json_loads e espoo_text = Some espoo_object \<longrightarrow>
         calling_functions e [(''1'', \<lparr> cf_name = ''weather'', cf_arguments = espoo_text \<rparr>)]
             ''Calling functions: ''
           = Inr (''Calling functions: weather('' @ py_str e espoo_object @ '') '')
       \<and> parse_args e sender_name espoo_text
           = JObj [(''location'', JStr ''Espoo''), (''user'', JStr sender_name)]
       \<and> run_tools e sender_name FunctionTable
             [(''1'', \<lparr> cf_name = ''weather'', cf_arguments = espoo_text \<rparr>)] messages
           = Inr (messages
                  @ [assistant_call_message e ''1'' ''weather''
                       (JObj [(''location'', JStr ''Espoo''), (''user'', JStr sender_name)]),
                     tool_message ''1'' ''weather''
                       (case get_weather e [(''location'', JStr ''Espoo''),
                                            (''user'', JStr sender_name)] of
                          Inr function_response \<Rightarrow> function_response
                        | Inl err \<Rightarrow> ''Function error: '' @ exn_str e err)]))"
proof (intro conjI impI)
  show ing: "ingest_all weather_fragments (None, [])
     = Inr (Some ''1'', [(''1'', \<lparr> cf_name = ''weather'', cf_arguments = espoo_text \<rparr>)])"
    by (simp add: weather_fragments_def ingest_def dict_get_def espoo_head_def espoo_tail_def
          espoo_text_def Let_def)
  let ?c1 = "[(''1'', \<lparr> cf_name = ''weather'', cf_arguments = espoo_head \<rparr>)]"
  let ?c2 = "[(''1'', \<lparr> cf_name = ''weather'', cf_arguments = espoo_text \<rparr>)]"
  have "(case p_tool_calls (process_chunk (chunk (tool_chunk [weather_fragments ! 0] 0)) False) of
              None \<Rightarrow> Inr (tool_call_id init_stream, collected_functions init_stream)
            | Some fs \<Rightarrow> ingest_all fs (tool_call_id init_stream, collected_functions init_stream))
           = Inr (Some ''1'', ?c1)"
    by (simp add: weather_fragments_def tool_chunk_def process_chunk_def init_stream_def
          ingest_def dict_get_def Let_def)
  from stream_step_functions[OF this, of evt event_id b] obtain st1 b1 where
    s1: "stream_step evt event_id False (tool_chunk [weather_fragments ! 0] 0) (init_stream, b)
           = Done (st1, b1)"
    and t1: "tool_call_id st1 = Some ''1''" and c1: "collected_functions st1 = ?c1"
    by blast
  have "(case p_tool_calls (process_chunk (chunk (tool_chunk [weather_fragments ! 1] (1/10))) False) of
              None \<Rightarrow> Inr (tool_call_id st1, collected_functions st1)
            | Some fs \<Rightarrow> ingest_all fs (tool_call_id st1, collected_functions st1))
           = Inr (Some ''1'', ?c2)"
    by (simp add: t1 c1 weather_fragments_def tool_chunk_def process_chunk_def
          ingest_def dict_get_def espoo_head_def espoo_tail_def espoo_text_def Let_def)
  from stream_step_functions[OF this, of evt event_id b1] obtain st2 b2 where
    s2: "stream_step evt event_id False (tool_chunk [weather_fragments ! 1] (1/10)) (st1, b1)
           = Done (st2, b2)"
    and t2: "tool_call_id st2 = Some ''1''" and c2: "collected_functions st2 = ?c2"
    by blast
  have "(case p_tool_calls (process_chunk (chunk (finish_chunk ''tool_calls'' (2/10))) False) of
              None \<Rightarrow> Inr (tool_call_id st2, collected_functions st2)
            | Some fs \<Rightarrow> ingest_all fs (tool_call_id st2, collected_functions st2))
           = Inr (Some ''1'', ?c2)"
    by (simp add: t2 c2 finish_chunk_def process_chunk_def)
  from stream_step_functions[OF this, of evt event_id b2] obtain st3 b3 where
    s3: "stream_step evt event_id False (finish_chunk ''tool_calls'' (2/10)) (st2, b2)
           = Done (st3, b3)"
    and c3: "collected_functions st3 = ?c2"
    by blast
  have "stream_loop evt event_id False weather_stream (init_stream, b) = Done (st3, b3)"
    using s1 s2 s3 by (simp add: weather_stream_def)
  with c3 show "\<exists>st b'. stream_loop evt event_id False weather_stream (init_stream, b) = Done (st, b')
         \<and> collected_functions st
             = [(''1'', \<lparr> cf_name = ''weather'', cf_arguments = espoo_text \<rparr>)]"
    by blast
next
  assume js: "json_loads e espoo_text = Some espoo_object"
  show "calling_functions e [(''1'', \<lparr> cf_name = ''weather'', cf_arguments = espoo_text \<rparr>)]
             ''Calling functions: ''
           = Inr (''Calling functions: weather('' @ py_str e espoo_object @ '') '')"
    using js by simp
  show pa: "parse_args e sender_name espoo_text
           = JObj [(''location'', JStr ''Espoo''), (''user'', JStr sender_name)]"
    using js by (simp add: parse_args_def espoo_object_def)
  show "run_tools e sender_name FunctionTable
             [(''1'', \<lparr> cf_name = ''weather'', cf_arguments = espoo_text \<rparr>)] messages
           = Inr (messages
                  @ [assistant_call_message e ''1'' ''weather''
                       (JObj [(''location'', JStr ''Espoo''), (''user'', JStr sender_name)]),
                     tool_message ''1'' ''weather''
                       (case get_weather e [(''location'', JStr ''Espoo''),
                                            (''user'', JStr sender_name)] of
                          Inr function_response \<Rightarrow> function_response
                        | Inl err \<Rightarrow> ''Function error: '' @ exn_str e err)])"
    by (simp add: pa call_function_def lookup_function_def split: sum.splits)
qed

theorem fragments_round_trip_witness:
  "json_loads example_env espoo_text = Some espoo_object
   \<and> calling_functions example_env
         [(''1'', \<lparr> cf_name = ''weather'', cf_arguments = espoo_text \<rparr>)] ''Calling functions: ''
       = Inr (''Calling functions: weather({'' @ [sq] @ ''location'' @ [sq] @ '': ''
              @ [sq] @ ''Espoo'' @ [sq] @ ''}) '')
   \<and> run_tools example_env ''@alice:example.org'' FunctionTable
         [(''1'', \<lparr> cf_name = ''weather'', cf_arguments = espoo_text \<rparr>)] []
       = Inr [assistant_call_message example_env ''1'' ''weather''
                (JObj [(''location'', JStr ''Espoo''), (''user'', JStr ''@alice:example.org'')]),
              tool_message ''1'' ''weather'' ''Sunny in Espoo'']"
proof -
  have js: "json_loads example_env espoo_text = Some espoo_object"
    by (simp add: example_env_def example_loads_def)
  have st: "py_str example_env espoo_object = ''{'' @ [sq] @ ''location'' @ [sq] @ '': ''
              @ [sq] @ ''Espoo'' @ [sq] @ ''}''"
    by (simp add: example_env_def espoo_object_def)
  have gw: "get_weather example_env
              [(''location'', JStr ''Espoo''), (''user'', JStr ''@alice:example.org'')]
            = Inr ''Sunny in Espoo''"
    by (simp add: example_env_def example_weather_def)
  from fragments_round_trip[of example_evt "''$reply''" init_bot example_env
         "''@alice:example.org''" "[]"] js
  have "calling_functions example_env
         [(''1'', \<lparr> cf_name = ''weather'', cf_arguments = espoo_text \<rparr>)] ''Calling functions: ''
       = Inr (''Calling functions: weather('' @ py_str example_env espoo_object @ '') '')"
    and "run_tools example_env ''@alice:example.org'' FunctionTable
         [(''1'', \<lparr> cf_name = ''weather'', cf_arguments = espoo_text \<rparr>)] []
       = Inr ([] @ [assistant_call_message example_env ''1'' ''weather''
                (JObj [(''location'', JStr ''Espoo''), (''user'', JStr ''@alice:example.org'')]),
              tool_message ''1'' ''weather''
                (case get_weather example_env [(''location'', JStr ''Espoo''),
                                            (''user'', JStr ''@alice:example.org'')] of
                          Inr function_response \<Rightarrow> function_response
                        | Inl err \<Rightarrow> ''Function error: '' @ exn_str example_env err)])"
    by blast+
  then show ?thesis using js st gw by simp
qed

section \<open>Claims about the tool phase and the continuation\<close>

text \<open>
  Claim C4 does not hold of the code. The stream of the example ends after the first
  fragment, so the argument text of the call \<open>1\<close> is \<open>{"loc\<close>, which \<open>json.loads\<close> rejects.
  The tool loop alone captures that: its first \<open>try\<close> replaces the arguments by the empty
  list and its second \<open>try\<close> turns the failed call into the content of the tool message.
  But the loop of the status edit parses the same text before it, outside any \<open>try\<close>: the
  request ends with \<open>JSONDecodeError\<close> after the two edits of the stream loop, with no
  status edit, no tool message and no second request.
\<close>

theorem malformed_arguments_abort:
  "map_option (\<lambda>(r, b, calls). (r, edit_texts b, length calls))
     (chat_gpt_request 2 example_env example_evt ''$reply'' init_bot ''bad arguments'' [])
     = Some (Some JSONDecodeError, [ellipsis, ellipsis], 1)
   \<and> calling_functions example_env
         [(''1'', \<lparr> cf_name = ''weather'', cf_arguments = espoo_head \<rparr>)] ''Calling functions: ''
       = Inl JSONDecodeError
   \<and> run_tools example_env ''@alice:example.org'' FunctionTable
         [(''1'', \<lparr> cf_name = ''weather'', cf_arguments = espoo_head \<rparr>)] []
       = Inr [assistant_call_message example_env ''1'' ''weather'' (JArr []),
              tool_message ''1'' ''weather''
                ''Function error: argument after ** must be a mapping, not list'']"
  by code_simp

text \<open>
  Claim C5 does not hold of the code. The stream of the example collects the call \<open>1\<close>
  of the unknown tool \<open>forecast\<close> and the call \<open>2\<close> of \<open>weather\<close>. The handler of the first
  call assigns the text of the key list to \<open>available_functions\<close>; at the second call
  the subscript of that text raises, the handler runs again and its
  \<open>available_functions.keys()\<close> raises \<open>AttributeError\<close>, which leaves the request:
  \<open>get_weather\<close> is not invoked, no message is appended and no second request is made.
  The same call of \<open>weather\<close> alone is invoked and answered.
\<close>

theorem later_call_not_invoked:
  "map_option (\<lambda>(r, b, calls). (r, length (edit_texts b), length calls))
     (chat_gpt_request 2 example_env example_evt ''$reply'' init_bot ''two tools'' [])
     = Some (Some AttributeError, 3, 1)
   \<and> run_tools example_env ''@alice:example.org'' FunctionTable
         [(''1'', \<lparr> cf_name = ''forecast'', cf_arguments = ''{}'' \<rparr>),
          (''2'', \<lparr> cf_name = ''weather'', cf_arguments = espoo_text \<rparr>)] []
       = Inl AttributeError
   \<and> run_tools example_env ''@alice:example.org'' FunctionTable
         [(''1'', \<lparr> cf_name = ''forecast'', cf_arguments = ''{}'' \<rparr>)] []
       = Inr [assistant_call_message example_env ''1'' ''forecast''
                (JObj [(''user'', JStr ''@alice:example.org'')]),
              tool_message ''1'' ''forecast'' (''Function error: '' @ [sq] @ ''forecast'' @ [sq])]
   \<and> run_tools example_env ''@alice:example.org'' FunctionTable
         [(''2'', \<lparr> cf_name = ''weather'', cf_arguments = espoo_text \<rparr>)] []
       = Inr [assistant_call_message example_env ''2'' ''weather''
                (JObj [(''location'', JStr ''Espoo''), (''user'', JStr ''@alice:example.org'')]),
              tool_message ''2'' ''weather'' ''Sunny in Espoo'']"
  by code_simp

text \<open>
  Claim C6 does not hold of the code. On the query \<open>weather in Espoo\<close> the tool phase
  runs the one call and appends the assistant message and the tool message with the
  result \<open>Sunny in Espoo\<close>. The recursive call gets the empty query, but \<open>messages[:-1]\<close>:
  the conversation without its last message, so the assistant message of the call is
  followed by no tool message and the result is lost.
\<close>

theorem tool_result_dropped:
  "(case request_step example_env example_evt ''$reply'' init_bot ''weather in Espoo'' [] of
      (c, Recurse b q h) \<Rightarrow> Some (q, h)
    | _ \<Rightarrow> None)
     = Some ([], [developer_message example_env, user_message ''alice'' ''weather in Espoo'',
                  assistant_call_message example_env ''1'' ''weather''
                    (JObj [(''location'', JStr ''Espoo''),
                           (''user'', JStr ''@alice:example.org'')])])
   \<and> run_tools example_env ''@alice:example.org'' FunctionTable
         [(''1'', \<lparr> cf_name = ''weather'', cf_arguments = espoo_text \<rparr>)]
         [developer_message example_env, user_message ''alice'' ''weather in Espoo'']
       = Inr [developer_message example_env, user_message ''alice'' ''weather in Espoo'',
              assistant_call_message example_env ''1'' ''weather''
                (JObj [(''location'', JStr ''Espoo''),
                       (''user'', JStr ''@alice:example.org'')]),
              tool_message ''1'' ''weather'' ''Sunny in Espoo'']"
  by code_simp

text \<open>
  Claim C7 does not hold of the code. The recursive call passes the conversation of
  the first request, developer message included, as the history of the second. On the
  query \<open>!gpt-4o !gpt-4o-mini weather\<close> both requests are made: the first conversation is
  the developer message and the user message; the second begins with two developer
  messages, and its last message is the user message of the empty query.
\<close>

theorem continuation_two_developer_messages:
  "map_option (\<lambda>(r, b, calls). (r, map (\<lambda>(model, msgs). map m_role msgs) calls))
     (chat_gpt_request 2 example_env example_evt ''$reply'' init_bot
        ''!gpt-4o !gpt-4o-mini weather'' [])
     = Some (None, [[''developer'', ''user''],
                    [''developer'', ''developer'', ''user'', ''assistant'', ''user'']])
   \<and> map_option (\<lambda>(r, b, calls). map (\<lambda>(model, msgs). take 2 msgs) calls)
     (chat_gpt_request 2 example_env example_evt ''$reply'' init_bot
        ''!gpt-4o !gpt-4o-mini weather'' [])
     = Some [[developer_message example_env, user_message ''alice'' ''!gpt-4o-mini weather''],
             [developer_message example_env, developer_message example_env]]"
  by code_simp

text \<open>
  Claim C8 does not hold of the code. The check for a model override is part of every
  call of \<open>chat_gpt_request\<close>, the recursive ones included. On the query
  \<open>!gpt-4o-mini weather in Espoo\<close> the first call takes the token and asks \<open>gpt-4o-mini\<close>;
  the recursive call checks the messages again, finds no token before the assistant
  message of the tool call, whose content is \<open>None\<close>, and \<open>pattern.search\<close> raises
  \<open>TypeError\<close>: no second request is made. On the query \<open>!gpt-4o !gpt-4o-mini weather\<close>
  the first call takes the first token and the recursive call takes the second: the two
  requests of the one invocation go to two models.
\<close>

theorem continuation_scans_again:
  "map_option (\<lambda>(r, b, calls). (r, map fst calls))
     (chat_gpt_request 2 example_env example_evt ''$reply'' init_bot
        ''!gpt-4o-mini weather in Espoo'' [])
     = Some (Some (TypeError NoneToPattern), [''gpt-4o-mini''])
   \<and> map_option (\<lambda>(r, b, calls). (r, map fst calls))
     (chat_gpt_request 2 example_env example_evt ''$reply'' init_bot ''weather in Espoo'' [])
     = Some (Some (TypeError NoneToPattern), [''gpt-4o''])
   \<and> map_option (\<lambda>(r, b, calls). (r, map (\<lambda>(model, msgs). (model, map m_content msgs)) calls))
     (chat_gpt_request 2 example_env example_evt ''$reply'' init_bot
        ''!gpt-4o !gpt-4o-mini weather'' [])
     = Some (None,
         [(''gpt-4o'', [m_content (developer_message example_env),
                        Some ''!gpt-4o-mini weather'']),
          (''gpt-4o-mini'', [m_content (developer_message example_env),
                             m_content (developer_message example_env),
                             Some ''weather'', None, Some [] ])])"
  by code_simp

end
